theory Spec2Isabelle
  imports Main
begin

section \<open>Strings\<close>

text \<open>
  Python strings are modelled as \<^typ>\<open>string\<close>. The model is exact for ASCII text, which is
  what project keys, route patterns and JIRA event names are made of; the one non-ASCII
  character of the program, the arrow of the changelog lines, is written as its UTF-8 bytes.
\<close>

definition newline :: char where
  "newline = CHR 0x0A"

text \<open>A character of ASCII: a byte below 128.\<close>

definition is_ascii :: "char \<Rightarrow> bool" where
  "is_ascii c = (\<not> digit7 c)"

text \<open>\<^verbatim>\<open>str.lower()\<close> on ASCII: the 26 capital letters are mapped, everything else is kept.\<close>

definition lower_char :: "char \<Rightarrow> char" where
  "lower_char c =
     (case map_of (zip ''ABCDEFGHIJKLMNOPQRSTUVWXYZ'' ''abcdefghijklmnopqrstuvwxyz'') c of
        None \<Rightarrow> c
      | Some d \<Rightarrow> d)"

definition lower :: "string \<Rightarrow> string" where
  "lower s = map lower_char s"

fun startswith :: "string \<Rightarrow> string \<Rightarrow> bool" where
  "startswith s [] = True"
| "startswith [] (p # ps) = False"
| "startswith (c # cs) (p # ps) = (c = p \<and> startswith cs ps)"

text \<open>\<^verbatim>\<open>needle in hay\<close> for two strings: a search for the needle at every position.\<close>

fun py_in :: "string \<Rightarrow> string \<Rightarrow> bool" where
  "py_in needle [] = (needle = [])"
| "py_in needle (c # cs) = (startswith (c # cs) needle \<or> py_in needle cs)"

text \<open>\<^verbatim>\<open>s.replace(old, new)\<close> where \<^verbatim>\<open>old\<close> is a single character.\<close>

definition str_replace_char :: "char \<Rightarrow> string \<Rightarrow> string \<Rightarrow> string" where
  "str_replace_char old new s = concat (map (\<lambda>c. if c = old then new else [c]) s)"

text \<open>\<^verbatim>\<open>sep.join(parts)\<close>.\<close>

fun join :: "string \<Rightarrow> string list \<Rightarrow> string" where
  "join sep [] = []"
| "join sep [x] = x"
| "join sep (x # y # ys) = x @ sep @ join sep (y # ys)"

section \<open>Exceptions\<close>

text \<open>
  The exceptions the modelled code can raise; \<open>ReError\<close> is \<^verbatim>\<open>re.error\<close>. \<open>Not_modelled\<close> is
  not a Python exception: it marks the inputs on which this model does not say what Python
  does (a regular expression outside the fragment of section \<open>Pattern matching\<close>, a
  pattern or key with a character outside ASCII, the \<^verbatim>\<open>str()\<close> of a JSON array or object,
  a project key that is not a string).
\<close>

datatype failure =
    AttributeError
  | KeyError string
  | TypeError
  | ReError
  | OSError
  | YAMLError
  | RequestException
  | Not_modelled

text \<open>Sequencing of two steps the first of which may raise.\<close>

definition and_then :: "failure + 'a \<Rightarrow> ('a \<Rightarrow> failure + 'b) \<Rightarrow> failure + 'b" where
  "and_then r f = (case r of Inl e \<Rightarrow> Inl e | Inr x \<Rightarrow> f x)"

section \<open>Event classification\<close>

text \<open>
  The keys of \<^verbatim>\<open>CLAUDE_PROMPT_TEMPLATES\<close>, and the choice \<^verbatim>\<open>handle_jira_webhook\<close> makes
  among them from the event name:
  \<^verbatim>\<open>
    template_key = 'issue_created'  # default
    if 'updated' in webhook_event.lower():
        template_key = 'issue_updated'
    elif 'assigned' in webhook_event.lower():
        template_key = 'issue_assigned'
  \<close>
\<close>

datatype template_key = Issue_created | Issue_updated | Issue_assigned

definition select_template_key :: "string \<Rightarrow> template_key" where
  "select_template_key webhook_event =
     (if py_in ''updated'' (lower webhook_event) then Issue_updated
      else if py_in ''assigned'' (lower webhook_event) then Issue_assigned
      else Issue_created)"

text \<open>
  What the specification calls a case-insensitive occurrence: some stretch of the event
  name spells the word when its capitals are lowered.
\<close>

definition occurs_ignoring_case :: "string \<Rightarrow> string \<Rightarrow> bool" where
  "occurs_ignoring_case word s = (\<exists>pre mid post. s = pre @ mid @ post \<and> lower mid = word)"

section \<open>Routes and the route table\<close>

text \<open>
  \<^verbatim>\<open>
  @dataclass
  class ProjectRoute:
      name: str
      namespace: str
      agentapi_url: str
      jira_projects: List[str]
      enabled: bool = True
  \<close>
\<close>

record ProjectRoute =
  name :: string
  namespace :: string
  agentapi_url :: string
  jira_projects :: "string list"
  enabled :: bool

text \<open>
  The state of a \<^verbatim>\<open>WebhookRouter\<close>: \<^verbatim>\<open>routes: Dict[str, ProjectRoute]\<close> and
  \<^verbatim>\<open>catch_all_route: Optional[ProjectRoute]\<close>. A Python dictionary iterates in insertion
  order, and the lookup iterates \<^verbatim>\<open>routes.values()\<close>, so the dictionary is an association
  list in insertion order. The third attribute, \<^verbatim>\<open>config_path\<close>, never changes; what the file
  at that path holds when it is read is an argument of \<open>load_config\<close> below.
\<close>

record WebhookRouter =
  routes :: "(string \<times> ProjectRoute) list"
  catch_all_route :: "ProjectRoute option"

text \<open>
  \<^verbatim>\<open>d[k] = v\<close>: the value of an existing key is replaced where it stands, a new key goes to
  the end.
\<close>

fun dict_set :: "'k \<Rightarrow> 'v \<Rightarrow> ('k \<times> 'v) list \<Rightarrow> ('k \<times> 'v) list" where
  "dict_set k v [] = [(k, v)]"
| "dict_set k v ((k', v') # kvs) = (if k' = k then (k, v) # kvs else (k', v') # dict_set k v kvs)"

section \<open>Pattern matching\<close>

text \<open>
  \<^verbatim>\<open>
  def _match_pattern(self, pattern: str, project_key: str) -> bool:
      if pattern == '*':
          return True
      regex_pattern = pattern.replace('*', '.*').replace('?', '.')
      return bool(re.match(f'^{regex_pattern}$', project_key, re.IGNORECASE))
  \<close>
  The pattern is handed to Python's \<^verbatim>\<open>re\<close> module after the two replacements, so what it
  matches is decided by the regular expression it happens to spell. The fragment of \<^verbatim>\<open>re\<close>
  modelled here is the one the two replacements produce from letters, digits and
  punctuation without a meaning in \<^verbatim>\<open>re\<close>: a sequence of atoms, each a literal character or
  the dot, each optionally followed by a star. A regular expression with any of the
  characters \<^verbatim>\<open>\ ^ $ | ? + ( ) [ ] { }\<close> inside, or with a star that follows no atom, is
  outside the fragment (Python raises \<^verbatim>\<open>re.error\<close> on some of them and applies further
  operators on the others), with one exception, modelled as the exception it is: a regular
  expression with an opening parenthesis that nothing can close. A pattern or a key with a
  character outside ASCII is outside the model too: \<^verbatim>\<open>re\<close> matches code points and folds
  case by Unicode.
\<close>

datatype re_atom = Lit char | Dot

datatype re_item = Once re_atom | Star re_atom

definition re_special :: "char \<Rightarrow> bool" where
  "re_special c = (c \<in> set (CHR 0x5C # ''^$|?*+()[]{}''))"

definition re_atom_of :: "char \<Rightarrow> re_atom" where
  "re_atom_of c = (if c = CHR ''.'' then Dot else Lit c)"

fun re_parse :: "string \<Rightarrow> re_item list option" where
  "re_parse [] = Some []"
| "re_parse [c] = (if re_special c then None else Some [Once (re_atom_of c)])"
| "re_parse (c # d # rest) =
     (if re_special c then None
      else if d = CHR ''*'' then map_option ((#) (Star (re_atom_of c))) (re_parse rest)
      else map_option ((#) (Once (re_atom_of c))) (re_parse (d # rest)))"

text \<open>
  Under \<^verbatim>\<open>re.IGNORECASE\<close> a literal matches its own letter in either case. Without
  \<^verbatim>\<open>re.DOTALL\<close> the dot matches every character but the newline.
\<close>

fun atom_matches :: "re_atom \<Rightarrow> char \<Rightarrow> bool" where
  "atom_matches (Lit c) d = (lower_char c = lower_char d)"
| "atom_matches Dot d = (d \<noteq> newline)"

text \<open>
  Whether the items, followed by \<^verbatim>\<open>$\<close>, match the string from its start. Without
  \<^verbatim>\<open>re.MULTILINE\<close>, \<^verbatim>\<open>$\<close> matches at the end of the string and also just before a newline
  that ends the string.
\<close>

fun re_match_items :: "re_item list \<Rightarrow> string \<Rightarrow> bool" where
  "re_match_items [] s = (s = [] \<or> s = [newline])"
| "re_match_items (Once a # its) [] = False"
| "re_match_items (Once a # its) (d # s) = (atom_matches a d \<and> re_match_items its s)"
| "re_match_items (Star a # its) [] = re_match_items its []"
| "re_match_items (Star a # its) (d # s) =
     (re_match_items its (d # s) \<or> (atom_matches a d \<and> re_match_items (Star a # its) s))"

text \<open>
  A regular expression that does not compile, whatever else it holds: it has an opening
  parenthesis, which starts a group since no backslash escapes it and no bracket starts a
  character class around it, and it has no closing parenthesis. \<^verbatim>\<open>re.match\<close> compiles the
  expression before it looks at the string, and raises \<^verbatim>\<open>re.error\<close> (missing ),
  unterminated subpattern).
\<close>

definition unterminated_group :: "string \<Rightarrow> bool" where
  "unterminated_group regex =
     (CHR ''('' \<in> set regex \<and> CHR '')'' \<notin> set regex \<and> CHR 0x5C \<notin> set regex \<and>
      CHR ''['' \<notin> set regex)"

text \<open>\<^verbatim>\<open>bool(re.match(regex, s, re.IGNORECASE))\<close> for a regular expression \<^verbatim>\<open>^...$\<close>.\<close>

definition re_match_ignorecase :: "string \<Rightarrow> string \<Rightarrow> failure + bool" where
  "re_match_ignorecase regex s =
     (if unterminated_group regex then Inl ReError
      else if \<not> (list_all is_ascii regex \<and> list_all is_ascii s) then Inl Not_modelled
      else
        (case regex of
           [] \<Rightarrow> Inl Not_modelled
         | c # body \<Rightarrow>
             if c = CHR ''^'' \<and> body \<noteq> [] \<and> last body = CHR ''$'' then
               (case re_parse (butlast body) of
                  None \<Rightarrow> Inl Not_modelled
                | Some its \<Rightarrow> Inr (re_match_items its s))
             else Inl Not_modelled))"

definition match_pattern :: "string \<Rightarrow> string \<Rightarrow> failure + bool" where
  "match_pattern pattern project_key =
     (if pattern = ''*'' then Inr True
      else
        let regex_pattern =
          str_replace_char (CHR ''?'') ''.'' (str_replace_char (CHR ''*'') ''.*'' pattern)
        in re_match_ignorecase (''^'' @ regex_pattern @ ''$'') project_key)"

text \<open>
  The matching the specification describes: \<open>*\<close> stands for zero or more characters of any
  kind, \<open>?\<close> for exactly one, every other character for itself in either case, and the
  whole pattern has to match the whole key.
\<close>

fun glob_match :: "string \<Rightarrow> string \<Rightarrow> bool" where
  "glob_match [] s = (s = [])"
| "glob_match (p # ps) [] = (p = CHR ''*'' \<and> glob_match ps [])"
| "glob_match (p # ps) (c # cs) =
     (if p = CHR ''*'' then glob_match ps (c # cs) \<or> glob_match (p # ps) cs
      else if p = CHR ''?'' then glob_match ps cs
      else lower_char p = lower_char c \<and> glob_match ps cs)"

text \<open>A pattern none of whose characters, \<open>*\<close> and \<open>?\<close> apart, has a meaning in \<^verbatim>\<open>re\<close>.\<close>

definition wildcard_only :: "string \<Rightarrow> bool" where
  "wildcard_only pattern = list_all (\<lambda>c. c \<notin> set (CHR 0x5C # ''.^$|+()[]{}'')) pattern"

text \<open>What the two replacements make of one character, as text and as parsed.\<close>

definition glob_regex :: "char \<Rightarrow> string" where
  "glob_regex c = (if c = CHR ''*'' then ''.*'' else if c = CHR ''?'' then ''.'' else [c])"

definition glob_item :: "char \<Rightarrow> re_item" where
  "glob_item c =
     (if c = CHR ''*'' then Star Dot else if c = CHR ''?'' then Once Dot else Once (Lit c))"

section \<open>Route lookup\<close>

text \<open>
  \<^verbatim>\<open>
  def find_route_for_project(self, jira_project_key: str) -> Optional[ProjectRoute]:
      # First, check for exact project matches
      for route in self.routes.values():
          if not route.enabled:
              continue
          if jira_project_key in route.jira_projects:
              return route
      # Then, check for pattern matches (e.g., "PROJ-*" matches "PROJ-123")
      for route in self.routes.values():
          if not route.enabled:
              continue
          for pattern in route.jira_projects:
              if self._match_pattern(pattern, jira_project_key):
                  return route
      # Finally, use catch-all route if available
      if self.catch_all_route and self.catch_all_route.enabled:
          return self.catch_all_route
      return None
  \<close>
  Each loop is a recursive function over the values of the dictionary. A pattern on which
  the matching raises ends the second loop there.
\<close>

fun exact_tier :: "ProjectRoute list \<Rightarrow> string \<Rightarrow> ProjectRoute option" where
  "exact_tier [] k = None"
| "exact_tier (r # rs) k =
     (if \<not> enabled r then exact_tier rs k
      else if k \<in> set (jira_projects r) then Some r
      else exact_tier rs k)"

fun match_any_pattern :: "string list \<Rightarrow> string \<Rightarrow> failure + bool" where
  "match_any_pattern [] k = Inr False"
| "match_any_pattern (p # ps) k =
     (case match_pattern p k of
        Inl e \<Rightarrow> Inl e
      | Inr b \<Rightarrow> if b then Inr True else match_any_pattern ps k)"

fun pattern_tier :: "ProjectRoute list \<Rightarrow> string \<Rightarrow> failure + ProjectRoute option" where
  "pattern_tier [] k = Inr None"
| "pattern_tier (r # rs) k =
     (if \<not> enabled r then pattern_tier rs k
      else
        (case match_any_pattern (jira_projects r) k of
           Inl e \<Rightarrow> Inl e
         | Inr b \<Rightarrow> if b then Inr (Some r) else pattern_tier rs k))"

definition find_route_for_project ::
  "WebhookRouter \<Rightarrow> string \<Rightarrow> failure + ProjectRoute option" where
  "find_route_for_project rt k =
     (case exact_tier (map snd (routes rt)) k of
        Some r \<Rightarrow> Inr (Some r)
      | None \<Rightarrow>
          (case pattern_tier (map snd (routes rt)) k of
             Inl e \<Rightarrow> Inl e
           | Inr (Some r) \<Rightarrow> Inr (Some r)
           | Inr None \<Rightarrow>
               (case catch_all_route rt of
                  None \<Rightarrow> Inr None
                | Some c \<Rightarrow> if enabled c then Inr (Some c) else Inr None)))"

text \<open>
  The two ways a route can stand to a key before the catch-all is asked: the route is
  enabled and lists the key, by equality of strings; and the route has nothing for the
  key in the pattern tier, being disabled or having every pattern evaluate to no match.
\<close>

definition lists_key :: "string \<Rightarrow> ProjectRoute \<Rightarrow> bool" where
  "lists_key k r = (enabled r \<and> k \<in> set (jira_projects r))"

definition misses :: "string \<Rightarrow> ProjectRoute \<Rightarrow> bool" where
  "misses k r = (\<not> enabled r \<or> list_all (\<lambda>p. match_pattern p k = Inr False) (jira_projects r))"

text \<open>
  Two ways of taking a route out of the running, to compare: its flag set to false, and
  the route deleted from the table.
\<close>

definition disable_route :: "string \<Rightarrow> WebhookRouter \<Rightarrow> WebhookRouter" where
  "disable_route n rt =
     rt\<lparr>routes :=
          map (\<lambda>(m, r). if m = n then (m, r\<lparr>enabled := False\<rparr>) else (m, r)) (routes rt)\<rparr>"

definition remove_route :: "string \<Rightarrow> WebhookRouter \<Rightarrow> WebhookRouter" where
  "remove_route n rt = rt\<lparr>routes := filter (\<lambda>(m, r). m \<noteq> n) (routes rt)\<rparr>"

definition disable_catch_all :: "WebhookRouter \<Rightarrow> WebhookRouter" where
  "disable_catch_all rt =
     rt\<lparr>catch_all_route := map_option (\<lambda>c. c\<lparr>enabled := False\<rparr>) (catch_all_route rt)\<rparr>"

definition remove_catch_all :: "WebhookRouter \<Rightarrow> WebhookRouter" where
  "remove_catch_all rt = rt\<lparr>catch_all_route := None\<rparr>"

section \<open>Loading the configuration\<close>

text \<open>
  The environment of the process: \<^verbatim>\<open>os.getenv(key, default)\<close>.
\<close>

type_synonym environ = "string \<Rightarrow> string option"

definition getenv :: "environ \<Rightarrow> string \<Rightarrow> string \<Rightarrow> string" where
  "getenv env key dflt = (case env key of None \<Rightarrow> dflt | Some v \<Rightarrow> v)"

text \<open>
  The parsed YAML document, with the shape the loader expects: a mapping with an optional
  list \<^verbatim>\<open>routes\<close> of mappings and an optional mapping \<^verbatim>\<open>catch_all\<close>. A key of an entry is
  present (\<open>Some\<close>) or absent (\<open>None\<close>); a value that is present has the type the dataclass
  declares for it. \<open>cfg_catch_all\<close> is \<open>None\<close> when the document has no \<^verbatim>\<open>catch_all\<close> or a
  false one (null, an empty mapping), which is what \<^verbatim>\<open>if catch_all_config:\<close> tests.
\<close>

record route_config =
  rc_name :: "string option"
  rc_namespace :: "string option"
  rc_agentapi_url :: "string option"
  rc_jira_projects :: "string list option"
  rc_enabled :: "bool option"

record catch_all_config =
  cc_name :: "string option"
  cc_namespace :: "string option"
  cc_agentapi_url :: "string option"
  cc_enabled :: "bool option"

record config_document =
  cfg_routes :: "route_config list option"
  cfg_catch_all :: "catch_all_config option"

text \<open>
  What is at \<^verbatim>\<open>config_path\<close> when it exists: a file that cannot be opened or parsed, or
  whose document is not a mapping (the exception is the one \<^verbatim>\<open>open\<close>, \<^verbatim>\<open>yaml.safe_load\<close> or
  \<^verbatim>\<open>config.get\<close> raises), or a document. The configuration source is \<open>None\<close> when
  \<^verbatim>\<open>os.path.exists(self.config_path)\<close> is false.
\<close>

datatype config_file = Unreadable failure | Document config_document

type_synonym config_source = "config_file option"

text \<open>\<^verbatim>\<open>d[key]\<close> on an entry of the document: \<^verbatim>\<open>KeyError\<close> when the key is absent.\<close>

definition required :: "string \<Rightarrow> 'a option \<Rightarrow> failure + 'a" where
  "required key v = (case v of None \<Rightarrow> Inl (KeyError key) | Some x \<Rightarrow> Inr x)"

text \<open>
  \<^verbatim>\<open>
  route = ProjectRoute(
      name=route_config['name'],
      namespace=route_config['namespace'],
      agentapi_url=route_config['agentapi_url'],
      jira_projects=route_config.get('jira_projects', []),
      enabled=route_config.get('enabled', True)
  )
  \<close>
\<close>

definition route_of_config :: "route_config \<Rightarrow> failure + ProjectRoute" where
  "route_of_config c =
     and_then (required ''name'' (rc_name c)) (\<lambda>n.
     and_then (required ''namespace'' (rc_namespace c)) (\<lambda>ns.
     and_then (required ''agentapi_url'' (rc_agentapi_url c)) (\<lambda>url.
     Inr \<lparr>name = n, namespace = ns, agentapi_url = url,
          jira_projects = (case rc_jira_projects c of None \<Rightarrow> [] | Some ps \<Rightarrow> ps),
          enabled = (case rc_enabled c of None \<Rightarrow> True | Some b \<Rightarrow> b)\<rparr>)))"

text \<open>
  \<^verbatim>\<open>
  self.catch_all_route = ProjectRoute(
      name=catch_all_config['name'],
      namespace=catch_all_config['namespace'],
      agentapi_url=catch_all_config['agentapi_url'],
      jira_projects=['*'],
      enabled=catch_all_config.get('enabled', True)
  )
  \<close>
\<close>

definition catch_all_of_config :: "catch_all_config \<Rightarrow> failure + ProjectRoute" where
  "catch_all_of_config c =
     and_then (required ''name'' (cc_name c)) (\<lambda>n.
     and_then (required ''namespace'' (cc_namespace c)) (\<lambda>ns.
     and_then (required ''agentapi_url'' (cc_agentapi_url c)) (\<lambda>url.
     Inr \<lparr>name = n, namespace = ns, agentapi_url = url,
          jira_projects = [''*''],
          enabled = (case cc_enabled c of None \<Rightarrow> True | Some b \<Rightarrow> b)\<rparr>)))"

text \<open>
  The loop \<^verbatim>\<open>for route_config in config.get('routes', []): ... self.routes[route.name] = route\<close>.
  The router is changed in place, so an exception leaves the routes stored so far: the
  result is the exception, if any, and the router at that moment.
\<close>

fun load_routes :: "route_config list \<Rightarrow> WebhookRouter \<Rightarrow> failure option \<times> WebhookRouter" where
  "load_routes [] rt = (None, rt)"
| "load_routes (c # cs) rt =
     (case route_of_config c of
        Inl e \<Rightarrow> (Some e, rt)
      | Inr r \<Rightarrow> load_routes cs (rt\<lparr>routes := dict_set (name r) r (routes rt)\<rparr>))"

text \<open>
  The body of \<^verbatim>\<open>if os.path.exists(self.config_path):\<close> in \<^verbatim>\<open>load_config\<close>: read the file,
  load the routes, then the catch-all.
\<close>

definition read_config :: "config_file \<Rightarrow> WebhookRouter \<Rightarrow> failure option \<times> WebhookRouter" where
  "read_config f rt =
     (case f of
        Unreadable e \<Rightarrow> (Some e, rt)
      | Document d \<Rightarrow>
          (case load_routes (case cfg_routes d of None \<Rightarrow> [] | Some cs \<Rightarrow> cs) rt of
             (Some e, rt') \<Rightarrow> (Some e, rt')
           | (None, rt') \<Rightarrow>
               (case cfg_catch_all d of
                  None \<Rightarrow> (None, rt')
                | Some c \<Rightarrow>
                    (case catch_all_of_config c of
                       Inl e \<Rightarrow> (Some e, rt')
                     | Inr r \<Rightarrow> (None, rt'\<lparr>catch_all_route := Some r\<rparr>)))))"

text \<open>
  \<^verbatim>\<open>
  def _load_from_env(self):
      default_url = os.getenv('DEFAULT_AGENTAPI_URL',
                              'http://claude-dev-env-service.claude-dev.svc.cluster.local:3284')
      default_namespace = os.getenv('DEFAULT_NAMESPACE', 'claude-dev')
      if default_url:
          self.catch_all_route = ProjectRoute(name='default', namespace=default_namespace,
              agentapi_url=default_url, jira_projects=['*'], enabled=True)
  \<close>
\<close>

definition default_url :: "environ \<Rightarrow> string" where
  "default_url env =
     getenv env ''DEFAULT_AGENTAPI_URL''
       ''http://claude-dev-env-service.claude-dev.svc.cluster.local:3284''"

definition default_namespace :: "environ \<Rightarrow> string" where
  "default_namespace env = getenv env ''DEFAULT_NAMESPACE'' ''claude-dev''"

definition default_route :: "environ \<Rightarrow> ProjectRoute" where
  "default_route env =
     \<lparr>name = ''default'', namespace = default_namespace env, agentapi_url = default_url env,
      jira_projects = [''*''], enabled = True\<rparr>"

definition load_from_env :: "environ \<Rightarrow> WebhookRouter \<Rightarrow> WebhookRouter" where
  "load_from_env env rt =
     (if default_url env \<noteq> [] then rt\<lparr>catch_all_route := Some (default_route env)\<rparr> else rt)"

text \<open>
  \<^verbatim>\<open>
  def load_config(self):
      try:
          if os.path.exists(self.config_path):
              ...
          else:
              self._load_from_env()
      except Exception as e:
          logger.error(f"Error loading config: {e}")
          self._load_from_env()
  \<close>
  Every exception of the body is handled, and nothing in the handler raises, so
  \<open>load_config\<close> always returns.
\<close>

definition load_config :: "environ \<Rightarrow> config_source \<Rightarrow> WebhookRouter \<Rightarrow> WebhookRouter" where
  "load_config env src rt =
     (case src of
        None \<Rightarrow> load_from_env env rt
      | Some f \<Rightarrow>
          (case read_config f rt of
             (None, rt') \<Rightarrow> rt'
           | (Some e, rt') \<Rightarrow> load_from_env env rt'))"

text \<open>\<^verbatim>\<open>WebhookRouter.__init__\<close>: an empty table, then \<^verbatim>\<open>load_config\<close>.\<close>

definition empty_router :: WebhookRouter where
  "empty_router = \<lparr>routes = [], catch_all_route = None\<rparr>"

definition new_router :: "environ \<Rightarrow> config_source \<Rightarrow> WebhookRouter" where
  "new_router env src = load_config env src empty_router"

text \<open>
  \<^verbatim>\<open>
  def reload_config(self):
      self.routes.clear()
      self.catch_all_route = None
      self.load_config()
  \<close>
  The result is the exception that leaves the method, if any, and the router afterwards.
  None of the three statements raises.
\<close>

definition reload_config ::
  "environ \<Rightarrow> config_source \<Rightarrow> WebhookRouter \<Rightarrow> failure option \<times> WebhookRouter" where
  "reload_config env src rt =
     (None, load_config env src (rt\<lparr>routes := [], catch_all_route := None\<rparr>))"

text \<open>
  \<^verbatim>\<open>
  @app.route('/config/reload', methods=['POST'])
  def reload_config():
      try:
          router.reload_config()
          return jsonify({"status": "success", ..., "routes_loaded": len(router.routes)})
      except Exception as e:
          return jsonify({"status": "error", "message": str(e)}), 500
  \<close>
  The HTTP status of the answer, and the router afterwards.
\<close>

definition reload_endpoint :: "environ \<Rightarrow> config_source \<Rightarrow> WebhookRouter \<Rightarrow> nat \<times> WebhookRouter" where
  "reload_endpoint env src rt =
     (case reload_config env src rt of
        (None, rt') \<Rightarrow> (200, rt')
      | (Some e, rt') \<Rightarrow> (500, rt'))"

section \<open>JSON values\<close>

text \<open>
  What \<^verbatim>\<open>request.get_json()\<close> returns: \<^verbatim>\<open>None\<close>, a bool, a number, a string, a list or a
  dictionary. Numbers are the integers (a float has no place in any claim here). An object
  is the list of its members in the order of the text.
\<close>

datatype json =
    JNull
  | JBool bool
  | JNum int
  | JStr string
  | JArr "json list"
  | JObj "(string \<times> json) list"

text \<open>The value of a key in an object: when the text repeats a key, the last one counts.\<close>

definition obj_get :: "(string \<times> json) list \<Rightarrow> string \<Rightarrow> json option" where
  "obj_get members key = map_of (rev members) key"

text \<open>
  \<^verbatim>\<open>x.get(key, dflt)\<close>: only a dictionary has the method; on \<^verbatim>\<open>None\<close>, a string, a number or
  a list the attribute lookup raises \<^verbatim>\<open>AttributeError\<close>.
\<close>

fun py_get :: "json \<Rightarrow> string \<Rightarrow> json \<Rightarrow> failure + json" where
  "py_get (JObj members) key dflt =
     Inr (case obj_get members key of None \<Rightarrow> dflt | Some v \<Rightarrow> v)"
| "py_get other key dflt = Inl AttributeError"

text \<open>Truth of a value, as \<^verbatim>\<open>if x:\<close> and \<^verbatim>\<open>not x\<close> test it.\<close>

fun truthy :: "json \<Rightarrow> bool" where
  "truthy JNull = False"
| "truthy (JBool b) = b"
| "truthy (JNum n) = (n \<noteq> 0)"
| "truthy (JStr s) = (s \<noteq> [])"
| "truthy (JArr xs) = (xs \<noteq> [])"
| "truthy (JObj members) = (members \<noteq> [])"

text \<open>Decimal digits of a natural number.\<close>

function show_nat :: "nat \<Rightarrow> string" where
  "show_nat n =
     (if n < 10 then [''0123456789'' ! n]
      else show_nat (n div 10) @ [''0123456789'' ! (n mod 10)])"
  by pat_completeness auto
termination
  by (relation "measure id") auto

text \<open>
  \<^verbatim>\<open>str(x)\<close>, which is what \<^verbatim>\<open>str.format\<close> and an f-string put in place of a value. The text
  of a list or dictionary is not modelled.
\<close>

fun py_str :: "json \<Rightarrow> failure + string" where
  "py_str JNull = Inr ''None''"
| "py_str (JBool b) = Inr (if b then ''True'' else ''False'')"
| "py_str (JNum n) = Inr (if n < 0 then ''-'' @ show_nat (nat (- n)) else show_nat (nat n))"
| "py_str (JStr s) = Inr s"
| "py_str (JArr xs) = Inl Not_modelled"
| "py_str (JObj members) = Inl Not_modelled"

section \<open>Prompt templates\<close>

text \<open>
  A template of \<^verbatim>\<open>CLAUDE_PROMPT_TEMPLATES\<close> is text with replacement fields
  \<^verbatim>\<open>{ticket_key}\<close>, \<^verbatim>\<open>{summary}\<close>, ...; \<^verbatim>\<open>template.format(**ticket_info)\<close> puts \<^verbatim>\<open>str\<close> of the
  value of each field in its place.
\<close>

datatype field =
    Ticket_key | Project_key | Summary | Description | Priority | Status | Assignee
  | Ticket_url | Changelog

datatype segment = Text string | Hole field

definition apostrophe :: string where
  "apostrophe = [CHR 0x27]"

definition issue_created_template :: "segment list" where
  "issue_created_template =
     [Text ''\<newline>New JIRA ticket created: '', Hole Ticket_key,
      Text ''\<newline>\<newline>Summary: '', Hole Summary,
      Text ''\<newline>Description: '', Hole Description,
      Text ''\<newline>Priority: '', Hole Priority,
      Text ''\<newline>Assignee: '', Hole Assignee,
      Text ''\<newline>Project: '', Hole Project_key,
      Text (''\<newline>\<newline>Please:\<newline>1. Analyze this ticket\<newline>2. Create a branch named ''
            @ apostrophe @ ''feature/''), Hole Ticket_key,
      Text (apostrophe @ ''\<newline>3. Set up initial project structure if needed\<newline>4. Create a plan in CLAUDE.md for implementing this feature\<newline>5. Start working on the implementation\<newline>\<newline>Ticket URL: ''),
      Hole Ticket_url, Text ''\<newline>'']"

definition issue_updated_template :: "segment list" where
  "issue_updated_template =
     [Text ''\<newline>JIRA ticket updated: '', Hole Ticket_key,
      Text ''\<newline>\<newline>Summary: '', Hole Summary,
      Text ''\<newline>Description: '', Hole Description,
      Text ''\<newline>Priority: '', Hole Priority,
      Text ''\<newline>Status: '', Hole Status,
      Text ''\<newline>Assignee: '', Hole Assignee,
      Text ''\<newline>Project: '', Hole Project_key,
      Text ''\<newline>\<newline>Changes made:\<newline>'', Hole Changelog,
      Text ''\<newline>\<newline>Please:\<newline>1. Review the changes to this ticket\<newline>2. Update your implementation plan if needed\<newline>3. Continue or adjust your work based on the updates\<newline>\<newline>Ticket URL: '',
      Hole Ticket_url, Text ''\<newline>'']"

definition issue_assigned_template :: "segment list" where
  "issue_assigned_template =
     [Text ''\<newline>JIRA ticket assigned to you: '', Hole Ticket_key,
      Text ''\<newline>\<newline>Summary: '', Hole Summary,
      Text ''\<newline>Description: '', Hole Description,
      Text ''\<newline>Priority: '', Hole Priority,
      Text ''\<newline>Assignee: '', Hole Assignee,
      Text ''\<newline>Project: '', Hole Project_key,
      Text (''\<newline>\<newline>Please:\<newline>1. Review this newly assigned ticket\<newline>2. Create a branch named ''
            @ apostrophe @ ''feature/''), Hole Ticket_key,
      Text (apostrophe @ '' if it doesn'' @ apostrophe @ ''t exist\<newline>3. Create or update your implementation plan\<newline>4. Begin work on the ticket\<newline>\<newline>Ticket URL: ''),
      Hole Ticket_url, Text ''\<newline>'']"

fun prompt_template :: "template_key \<Rightarrow> segment list" where
  "prompt_template Issue_created = issue_created_template"
| "prompt_template Issue_updated = issue_updated_template"
| "prompt_template Issue_assigned = issue_assigned_template"

text \<open>The dictionary \<^verbatim>\<open>ticket_info\<close>: a value for each replacement field.\<close>

type_synonym ticket_info = "field \<Rightarrow> json"

fun format_template :: "segment list \<Rightarrow> ticket_info \<Rightarrow> failure + string" where
  "format_template [] info = Inr []"
| "format_template (Text t # segs) info =
     and_then (format_template segs info) (\<lambda>rest. Inr (t @ rest))"
| "format_template (Hole f # segs) info =
     and_then (py_str (info f)) (\<lambda>v.
     and_then (format_template segs info) (\<lambda>rest. Inr (v @ rest)))"

section \<open>The changelog of an update\<close>

text \<open>
  \<^verbatim>\<open>
  def _extract_changelog(webhook_data):
      changelog = webhook_data.get('changelog', {})
      items = changelog.get('items', [])
      changes = []
      for item in items:
          field = item.get('field', '')
          from_val = item.get('fromString', 'None')
          to_val = item.get('toString', 'None')
          changes.append(f"- {field}: {from_val} -> {to_val}")
      return '\n'.join(changes) if changes else 'No specific changes detected'
  \<close>
  where the source has the arrow U+2192 in place of \<^verbatim>\<open>->\<close>; \<open>arrow\<close> is its UTF-8 encoding.
\<close>

definition arrow :: string where
  "arrow = [CHR 0xE2, CHR 0x86, CHR 0x92]"

definition changelog_line :: "json \<Rightarrow> failure + string" where
  "changelog_line item =
     and_then (py_get item ''field'' (JStr [])) (\<lambda>field.
     and_then (py_get item ''fromString'' (JStr ''None'')) (\<lambda>from_val.
     and_then (py_get item ''toString'' (JStr ''None'')) (\<lambda>to_val.
     and_then (py_str field) (\<lambda>f.
     and_then (py_str from_val) (\<lambda>a.
     and_then (py_str to_val) (\<lambda>b.
     Inr (''- '' @ f @ '': '' @ a @ '' '' @ arrow @ '' '' @ b)))))))"

text \<open>The loop: \<open>changes\<close> is the list built so far.\<close>

fun changelog_lines :: "json list \<Rightarrow> string list \<Rightarrow> failure + string list" where
  "changelog_lines [] changes = Inr changes"
| "changelog_lines (item # items) changes =
     and_then (changelog_line item) (\<lambda>l. changelog_lines items (changes @ [l]))"

text \<open>
  What \<^verbatim>\<open>for item in items\<close> goes through: the elements of a list, the keys of a dictionary,
  the characters of a string (each a string of length one); anything else is not iterable.
\<close>

fun py_iter :: "json \<Rightarrow> failure + json list" where
  "py_iter (JArr xs) = Inr xs"
| "py_iter (JObj members) = Inr (map JStr (rev (remdups (rev (map fst members)))))"
| "py_iter (JStr s) = Inr (map (\<lambda>c. JStr [c]) s)"
| "py_iter other = Inl TypeError"

definition extract_changelog :: "json \<Rightarrow> failure + string" where
  "extract_changelog webhook_data =
     and_then (py_get webhook_data ''changelog'' (JObj [])) (\<lambda>changelog.
     and_then (py_get changelog ''items'' (JArr [])) (\<lambda>items.
     and_then (py_iter items) (\<lambda>its.
     and_then (changelog_lines its []) (\<lambda>changes.
     Inr (if changes \<noteq> [] then join [newline] changes
          else ''No specific changes detected'')))))"







section \<open>The webhook handler\<close>

text \<open>
  The downstream agent is outside the program: \<^verbatim>\<open>requests.post(url, json={"content": c,
  "type": "user"}, ...)\<close> is a function from the URL and the content to what comes back, a
  status code with the text of the answer, or a \<^verbatim>\<open>RequestException\<close>.
\<close>

datatype post_outcome = Post_status nat string | Post_failed

type_synonym agent_api = "string \<Rightarrow> json \<Rightarrow> post_outcome"

text \<open>
  The dictionary \<^verbatim>\<open>ticket_info\<close> of \<^verbatim>\<open>handle_jira_webhook\<close>, its entries evaluated in the
  order of the source:
  \<^verbatim>\<open>
  ticket_info = {
      'ticket_key': ticket_key,
      'project_key': project_key,
      'summary': fields.get('summary', ''),
      'description': fields.get('description', ''),
      'priority': fields.get('priority', {}).get('name', 'None'),
      'status': fields.get('status', {}).get('name', 'Unknown'),
      'assignee': fields.get('assignee', {}).get('displayName', 'Unassigned')
                  if fields.get('assignee') else 'Unassigned',
      'ticket_url': f"{os.getenv('JIRA_BASE_URL', 'https://your-jira.atlassian.net')}/browse/{ticket_key}",
      'changelog': _extract_changelog(data) if 'updated' in webhook_event.lower() else ''
  }
  \<close>
\<close>

definition ticket_info_of ::
  "environ \<Rightarrow> json \<Rightarrow> json \<Rightarrow> json \<Rightarrow> json \<Rightarrow> string \<Rightarrow> failure + ticket_info" where
  "ticket_info_of env data issue_fields ticket_key project_key webhook_event =
     and_then (py_get issue_fields ''summary'' (JStr [])) (\<lambda>summary.
     and_then (py_get issue_fields ''description'' (JStr [])) (\<lambda>description.
     and_then (py_get issue_fields ''priority'' (JObj [])) (\<lambda>priority_obj.
     and_then (py_get priority_obj ''name'' (JStr ''None'')) (\<lambda>priority.
     and_then (py_get issue_fields ''status'' (JObj [])) (\<lambda>status_obj.
     and_then (py_get status_obj ''name'' (JStr ''Unknown'')) (\<lambda>status.
     and_then (py_get issue_fields ''assignee'' JNull) (\<lambda>assignee_test.
     and_then
       (if truthy assignee_test then
          and_then (py_get issue_fields ''assignee'' (JObj [])) (\<lambda>assignee_obj.
          py_get assignee_obj ''displayName'' (JStr ''Unassigned''))
        else Inr (JStr ''Unassigned'')) (\<lambda>assignee.
     and_then (py_str ticket_key) (\<lambda>key_text.
     and_then
       (if py_in ''updated'' (lower webhook_event) then
          and_then (extract_changelog data) (\<lambda>c. Inr (JStr c))
        else Inr (JStr [])) (\<lambda>changelog.
     Inr (\<lambda>f. case f of
            Ticket_key \<Rightarrow> ticket_key
          | Project_key \<Rightarrow> project_key
          | Summary \<Rightarrow> summary
          | Description \<Rightarrow> description
          | Priority \<Rightarrow> priority
          | Status \<Rightarrow> status
          | Assignee \<Rightarrow> assignee
          | Ticket_url \<Rightarrow>
              JStr (getenv env ''JIRA_BASE_URL'' ''https://your-jira.atlassian.net''
                    @ ''/browse/'' @ key_text)
          | Changelog \<Rightarrow> changelog)))))))))))"

text \<open>
  The prompt: the template chosen from the event name, filled from \<^verbatim>\<open>ticket_info\<close>.
  \<^verbatim>\<open>
  prompt_template = CLAUDE_PROMPT_TEMPLATES.get(template_key, CLAUDE_PROMPT_TEMPLATES['issue_created'])
  prompt = prompt_template.format(**ticket_info)
  \<close>
\<close>

definition build_prompt ::
  "environ \<Rightarrow> json \<Rightarrow> json \<Rightarrow> json \<Rightarrow> json \<Rightarrow> string \<Rightarrow> failure + string" where
  "build_prompt env data issue_fields ticket_key project_key webhook_event =
     and_then (ticket_info_of env data issue_fields ticket_key project_key webhook_event) (\<lambda>info.
     format_template (prompt_template (select_template_key webhook_event)) info)"

text \<open>The answers of \<^verbatim>\<open>/jira-webhook\<close>, and their HTTP status.\<close>

datatype webhook_response =
    No_json_data
  | Ignored_no_issue
  | Ignored_no_route json
  | Routed string json json
  | Agent_rejected nat
  | Agent_unreachable
  | Internal_error failure
  | Outside_model

fun http_status :: "webhook_response \<Rightarrow> nat option" where
  "http_status No_json_data = Some 400"
| "http_status Ignored_no_issue = Some 200"
| "http_status (Ignored_no_route k) = Some 200"
| "http_status (Routed n t k) = Some 200"
| "http_status (Agent_rejected code) = Some 500"
| "http_status Agent_unreachable = Some 500"
| "http_status (Internal_error e) = Some 500"
| "http_status Outside_model = None"

text \<open>
  \<^verbatim>\<open>router.find_route_for_project(project_key)\<close> on the value the payload has for the
  project key. The lookup on a key that is not a string is not modelled.
\<close>

definition lookup_key :: "WebhookRouter \<Rightarrow> json \<Rightarrow> failure + ProjectRoute option" where
  "lookup_key rt project_key =
     (case project_key of JStr k \<Rightarrow> find_route_for_project rt k | _ \<Rightarrow> Inl Not_modelled)"

text \<open>\<^verbatim>\<open>webhook_event.lower()\<close> needs a string.\<close>

definition event_name :: "json \<Rightarrow> failure + string" where
  "event_name webhook_event =
     (case webhook_event of JStr e \<Rightarrow> Inr e | _ \<Rightarrow> Inl AttributeError)"

text \<open>
  The body of the outer \<^verbatim>\<open>try\<close> of \<^verbatim>\<open>handle_jira_webhook\<close>, statement by statement:
  \<^verbatim>\<open>
  data = request.get_json()
  if not data:
      return jsonify({"status": "error", "message": "No JSON data provided"}), 400
  webhook_event = data.get('webhookEvent', '')
  issue = data.get('issue', {})
  if not issue:
      return jsonify({"status": "ignored", "message": "No issue data in webhook"}), 200
  fields = issue.get('fields', {})
  project = fields.get('project', {})
  project_key = project.get('key', 'UNKNOWN')
  ticket_key = issue.get('key', 'UNKNOWN')
  target_route = router.find_route_for_project(project_key)
  if not target_route:
      return jsonify({"status": "ignored", ...}), 200
  ... template_key, ticket_info, prompt ...
  try:
      response = requests.post(f"{target_route.agentapi_url}/message", ...)
      if response.status_code == 200:
          return jsonify({"status": "success", ..., "route": target_route.name})
      else:
          return jsonify({"status": "error", ...}), 500
  except requests.exceptions.RequestException as e:
      return jsonify({"status": "error", ...}), 500
  \<close>
\<close>

definition handle_body ::
  "environ \<Rightarrow> WebhookRouter \<Rightarrow> agent_api \<Rightarrow> json \<Rightarrow> failure + webhook_response" where
  "handle_body env rt post data =
     (if \<not> truthy data then Inr No_json_data
      else
        and_then (py_get data ''webhookEvent'' (JStr [])) (\<lambda>webhook_event.
        and_then (py_get data ''issue'' (JObj [])) (\<lambda>issue.
        if \<not> truthy issue then Inr Ignored_no_issue
        else
          and_then (py_get issue ''fields'' (JObj [])) (\<lambda>issue_fields.
          and_then (py_get issue_fields ''project'' (JObj [])) (\<lambda>project.
          and_then (py_get project ''key'' (JStr ''UNKNOWN'')) (\<lambda>project_key.
          and_then (py_get issue ''key'' (JStr ''UNKNOWN'')) (\<lambda>ticket_key.
          and_then (lookup_key rt project_key) (\<lambda>target_route.
          case target_route of
            None \<Rightarrow> Inr (Ignored_no_route project_key)
          | Some route \<Rightarrow>
              and_then (event_name webhook_event) (\<lambda>event.
              and_then (build_prompt env data issue_fields ticket_key project_key event) (\<lambda>prompt.
              Inr (case post (agentapi_url route @ ''/message'') (JStr prompt) of
                     Post_status code text \<Rightarrow>
                       if code = 200 then Routed (name route) ticket_key project_key
                       else Agent_rejected code
                   | Post_failed \<Rightarrow> Agent_unreachable)))))))))))"

text \<open>
  \<^verbatim>\<open>
  except Exception as e:
      logger.error(f"Error processing webhook: {e}")
      return jsonify({"status": "error", "message": str(e)}), 500
  \<close>
\<close>

definition handle_jira_webhook ::
  "environ \<Rightarrow> WebhookRouter \<Rightarrow> agent_api \<Rightarrow> json \<Rightarrow> webhook_response" where
  "handle_jira_webhook env rt post data =
     (case handle_body env rt post data of
        Inl e \<Rightarrow> if e = Not_modelled then Outside_model else Internal_error e
      | Inr r \<Rightarrow> r)"

section \<open>The manual trigger\<close>

text \<open>
  \<^verbatim>\<open>
  def trigger_claude_manual():
      try:
          data = request.get_json()
          prompt = data.get('prompt', '')
          project_name = data.get('project', '')
          if not prompt:
              return jsonify({"error": "No prompt provided"}), 400
          target_route = None
          if project_name:
              target_route = router.routes.get(project_name)
          if not target_route:
              target_route = router.catch_all_route
          if not target_route:
              return jsonify({"error": "No route available"}), 400
          response = requests.post(f"{target_route.agentapi_url}/message",
              json={"content": prompt, "type": "user"}, ...)
          return jsonify({
              "status": "success" if response.status_code == 200 else "error",
              "route": target_route.name,
              "claude_response": response.text
          })
      except Exception as e:
          return jsonify({"error": str(e)}), 500
  \<close>
\<close>

datatype trigger_response =
    No_prompt_provided
  | No_route_available
  | Triggered bool string string
  | Trigger_error failure

text \<open>
  \<^verbatim>\<open>router.routes.get(project_name)\<close>: a string is looked up among the names; a list or a
  dictionary cannot be hashed; any other value is no key of the dictionary.
\<close>

definition routes_get :: "WebhookRouter \<Rightarrow> json \<Rightarrow> failure + ProjectRoute option" where
  "routes_get rt project_name =
     (case project_name of
        JStr p \<Rightarrow> Inr (map_of (routes rt) p)
      | JArr xs \<Rightarrow> Inl TypeError
      | JObj members \<Rightarrow> Inl TypeError
      | _ \<Rightarrow> Inr None)"

definition trigger_body :: "WebhookRouter \<Rightarrow> agent_api \<Rightarrow> json \<Rightarrow> failure + trigger_response" where
  "trigger_body rt post data =
     and_then (py_get data ''prompt'' (JStr [])) (\<lambda>prompt.
     and_then (py_get data ''project'' (JStr [])) (\<lambda>project_name.
     if \<not> truthy prompt then Inr No_prompt_provided
     else
       and_then (if truthy project_name then routes_get rt project_name else Inr None) (\<lambda>named.
       case (case named of None \<Rightarrow> catch_all_route rt | Some r \<Rightarrow> Some r) of
         None \<Rightarrow> Inr No_route_available
       | Some target \<Rightarrow>
           (case post (agentapi_url target @ ''/message'') prompt of
              Post_status code text \<Rightarrow> Inr (Triggered (code = 200) (name target) text)
            | Post_failed \<Rightarrow> Inl RequestException))))"

definition trigger_claude_manual :: "WebhookRouter \<Rightarrow> agent_api \<Rightarrow> json \<Rightarrow> trigger_response" where
  "trigger_claude_manual rt post data =
     (case trigger_body rt post data of Inl e \<Rightarrow> Trigger_error e | Inr r \<Rightarrow> r)"

section \<open>Example tables\<close>

definition route_alpha :: ProjectRoute where
  "route_alpha =
     \<lparr>name = ''alpha'', namespace = ''team-alpha'', agentapi_url = ''http://alpha:3284'',
      jira_projects = [''PROJ''], enabled = True\<rparr>"

definition route_beta :: ProjectRoute where
  "route_beta =
     \<lparr>name = ''beta'', namespace = ''team-beta'', agentapi_url = ''http://beta:3284'',
      jira_projects = [''PR*''], enabled = True\<rparr>"

definition route_gamma :: ProjectRoute where
  "route_gamma =
     \<lparr>name = ''gamma'', namespace = ''team-gamma'', agentapi_url = ''http://gamma:3284'',
      jira_projects = [''PROJ''], enabled = True\<rparr>"

definition route_fallback :: ProjectRoute where
  "route_fallback =
     \<lparr>name = ''fallback'', namespace = ''shared'', agentapi_url = ''http://shared:3284'',
      jira_projects = [''*''], enabled = True\<rparr>"

text \<open>A route whose one pattern is an opening parenthesis.\<close>

definition route_paren :: ProjectRoute where
  "route_paren =
     \<lparr>name = ''paren'', namespace = ''team-paren'', agentapi_url = ''http://paren:3284'',
      jira_projects = [''(''], enabled = True\<rparr>"

text \<open>The table holding the given routes, inserted in this order under their names.\<close>

definition make_router :: "ProjectRoute list \<Rightarrow> ProjectRoute option \<Rightarrow> WebhookRouter" where
  "make_router rs c = \<lparr>routes = map (\<lambda>r. (name r, r)) rs, catch_all_route = c\<rparr>"

text \<open>
  A document whose second route has no \<^verbatim>\<open>namespace\<close>: loading stops there, after the first
  route has been stored.
\<close>

definition good_entry :: route_config where
  "good_entry =
     \<lparr>rc_name = Some ''alpha'', rc_namespace = Some ''team-alpha'',
      rc_agentapi_url = Some ''http://alpha:3284'', rc_jira_projects = Some [''PROJ''],
      rc_enabled = None\<rparr>"

definition bad_entry :: route_config where
  "bad_entry =
     \<lparr>rc_name = Some ''beta'', rc_namespace = None,
      rc_agentapi_url = Some ''http://beta:3284'', rc_jira_projects = None, rc_enabled = None\<rparr>"

definition broken_document :: config_file where
  "broken_document = Document \<lparr>cfg_routes = Some [good_entry, bad_entry], cfg_catch_all = None\<rparr>"

text \<open>An agent that answers 200 to every request, with the URL it was called at as text.\<close>

definition agent_ok :: agent_api where
  "agent_ok url content = Post_status 200 url"

text \<open>
  The payload
  \<^verbatim>\<open>{"webhookEvent": "jira:issue_created", "issue": {"key": "PROJ-1", "fields": {"summary":
  "Fix bug", "project": {"key": "PROJ"}, "priority": null, "assignee": null}}}\<close>,
  its \<^verbatim>\<open>fields\<close>, and the same \<^verbatim>\<open>fields\<close> without the member \<^verbatim>\<open>priority\<close>.
\<close>

definition null_priority_fields :: json where
  "null_priority_fields =
     JObj [(''summary'', JStr ''Fix bug''), (''project'', JObj [(''key'', JStr ''PROJ'')]),
           (''priority'', JNull), (''assignee'', JNull)]"

definition null_priority_payload :: json where
  "null_priority_payload =
     JObj [(''webhookEvent'', JStr ''jira:issue_created''),
           (''issue'', JObj [(''key'', JStr ''PROJ-1''), (''fields'', null_priority_fields)])]"

definition no_priority_fields :: json where
  "no_priority_fields =
     JObj [(''summary'', JStr ''Fix bug''), (''project'', JObj [(''key'', JStr ''PROJ'')]),
           (''assignee'', JNull)]"

section \<open>Evaluation\<close>

lemmas example_defs =
  route_alpha_def route_beta_def route_gamma_def route_fallback_def route_paren_def
  make_router_def

lemmas match_defs =
  match_pattern_def str_replace_char_def re_match_ignorecase_def unterminated_group_def
  is_ascii_def re_special_def re_atom_of_def lower_char_def newline_def

lemmas lookup_defs = find_route_for_project_def match_defs

section \<open>Substring search\<close>

lemma startswith_iff: "startswith s p \<longleftrightarrow> (\<exists>post. s = p @ post)"
  by (induction s p rule: startswith.induct) auto

lemma py_in_iff: "py_in needle hay \<longleftrightarrow> (\<exists>pre post. hay = pre @ needle @ post)"
proof (induction hay)
  case Nil
  then show ?case by auto
next
  case (Cons c cs)
  show ?case
  proof
    assume "py_in needle (c # cs)"
    then consider "startswith (c # cs) needle" | "py_in needle cs" by auto
    then show "\<exists>pre post. c # cs = pre @ needle @ post"
    proof cases
      case 1
      then obtain post where "c # cs = needle @ post" by (auto simp: startswith_iff)
      then have "c # cs = [] @ needle @ post" by simp
      then show ?thesis by blast
    next
      case 2
      then obtain pre post where "cs = pre @ needle @ post" using Cons.IH by auto
      then have "c # cs = (c # pre) @ needle @ post" by simp
      then show ?thesis by blast
    qed
  next
    assume "\<exists>pre post. c # cs = pre @ needle @ post"
    then obtain pre post where e: "c # cs = pre @ needle @ post" by auto
    show "py_in needle (c # cs)"
    proof (cases pre)
      case Nil
      then have "startswith (c # cs) needle" using e by (auto simp: startswith_iff)
      then show ?thesis by simp
    next
      case (Cons a pre')
      then have "cs = pre' @ needle @ post" using e by simp
      then have "py_in needle cs" using Cons.IH by blast
      then show ?thesis by simp
    qed
  qed
qed

lemma lower_contains_iff: "py_in needle (lower e) \<longleftrightarrow> occurs_ignoring_case needle e"
proof
  assume "py_in needle (lower e)"
  then obtain a b where ab: "map lower_char e = a @ needle @ b"
    by (auto simp: py_in_iff lower_def)
  define mid where "mid = take (length needle) (drop (length a) e)"
  have "lower mid = take (length needle) (drop (length a) (map lower_char e))"
    by (simp add: mid_def lower_def take_map drop_map)
  also have "\<dots> = needle"
    using ab by simp
  finally have m: "lower mid = needle" .
  have "drop (length a) e = mid @ drop (length needle) (drop (length a) e)"
    by (simp only: mid_def append_take_drop_id)
  then have "e = take (length a) e @ mid @ drop (length needle) (drop (length a) e)"
    by (metis append_take_drop_id)
  with m show "occurs_ignoring_case needle e"
    unfolding occurs_ignoring_case_def by blast
next
  assume "occurs_ignoring_case needle e"
  then obtain pre mid post where "e = pre @ mid @ post" and "lower mid = needle"
    unfolding occurs_ignoring_case_def by auto
  then have "lower e = lower pre @ needle @ lower post" by (auto simp: lower_def)
  then show "py_in needle (lower e)" unfolding py_in_iff by blast
qed

section \<open>Facts about the lookup\<close>

lemma exact_tier_Some:
  "exact_tier rs k = Some r \<Longrightarrow> r \<in> set rs \<and> enabled r \<and> k \<in> set (jira_projects r)"
  by (induction rs) (auto split: if_splits)

lemma exact_tier_None:
  "exact_tier rs k = None \<longleftrightarrow> (\<forall>r\<in>set rs. enabled r \<longrightarrow> k \<notin> set (jira_projects r))"
  by (induction rs) auto

lemma pattern_tier_Some:
  "pattern_tier rs k = Inr (Some r) \<Longrightarrow> r \<in> set rs \<and> enabled r"
  by (induction rs) (auto split: if_splits sum.splits)



lemma find_route_enabled:
  "find_route_for_project rt k = Inr (Some r) \<Longrightarrow> enabled r"
  unfolding find_route_for_project_def
  by (auto split: option.splits sum.splits if_splits dest: exact_tier_Some pattern_tier_Some)

lemma exact_tier_disable:
  "exact_tier (map snd (routes (disable_route n rt))) k =
   exact_tier (map snd (routes (remove_route n rt))) k"
proof -
  have "exact_tier (map snd (map (\<lambda>(m, r). if m = n then (m, r\<lparr>enabled := False\<rparr>) else (m, r)) xs)) k =
        exact_tier (map snd (filter (\<lambda>(m, r). m \<noteq> n) xs)) k" for xs
  proof (induction xs)
    case Nil
    show ?case by simp
  next
    case (Cons x xs)
    obtain m r where x: "x = (m, r)" by (cases x)
    show ?case using Cons by (cases "m = n") (simp_all add: x)
  qed
  then show ?thesis by (simp add: disable_route_def remove_route_def del: map_map)
qed

lemma pattern_tier_disable:
  "pattern_tier (map snd (routes (disable_route n rt))) k =
   pattern_tier (map snd (routes (remove_route n rt))) k"
proof -
  have "pattern_tier (map snd (map (\<lambda>(m, r). if m = n then (m, r\<lparr>enabled := False\<rparr>) else (m, r)) xs)) k =
        pattern_tier (map snd (filter (\<lambda>(m, r). m \<noteq> n) xs)) k" for xs
  proof (induction xs)
    case Nil
    show ?case by simp
  next
    case (Cons x xs)
    obtain m r where x: "x = (m, r)" by (cases x)
    show ?case using Cons by (cases "m = n") (simp_all add: x cong: sum.case_cong if_cong)
  qed
  then show ?thesis by (simp add: disable_route_def remove_route_def del: map_map)
qed

lemma find_route_disable:
  "find_route_for_project (disable_route n rt) k = find_route_for_project (remove_route n rt) k"
proof -
  have "catch_all_route (disable_route n rt) = catch_all_route (remove_route n rt)"
    by (simp add: disable_route_def remove_route_def)
  then show ?thesis
    by (simp only: find_route_for_project_def exact_tier_disable pattern_tier_disable)
qed

lemma find_route_disable_catch_all:
  "find_route_for_project (disable_catch_all rt) k = find_route_for_project (remove_catch_all rt) k"
  by (cases "catch_all_route rt")
     (simp_all add: find_route_for_project_def disable_catch_all_def remove_catch_all_def
       split: option.splits sum.splits)

lemma exact_tier_unique:
  assumes "A \<in> set rs" "enabled A" "k \<in> set (jira_projects A)"
    and "\<forall>r\<in>set rs. enabled r \<and> k \<in> set (jira_projects r) \<longrightarrow> r = A"
  shows "exact_tier rs k = Some A"
proof (cases "exact_tier rs k")
  case None
  then show ?thesis using assms(1-3) by (auto simp: exact_tier_None)
next
  case (Some r)
  then show ?thesis using assms(4) exact_tier_Some by blast
qed

lemma exact_tier_first:
  assumes "lists_key k R" and "\<forall>(m', r)\<in>set pre. \<not> lists_key k r"
  shows "exact_tier (map snd (pre @ (m, R) # post)) k = Some R"
  using assms by (induction pre) (auto simp: lists_key_def)

lemma exact_tier_nobody:
  "\<forall>(m', r)\<in>set xs. \<not> lists_key k r \<Longrightarrow> exact_tier (map snd xs) k = None"
  by (induction xs) (auto simp: lists_key_def)

lemma match_any_pattern_hit:
  assumes "match_pattern p k = Inr True" and "\<forall>q\<in>set ps. match_pattern q k = Inr False"
  shows "match_any_pattern (ps @ p # qs) k = Inr True"
  using assms by (induction ps) auto

lemma match_any_pattern_miss:
  "list_all (\<lambda>p. match_pattern p k = Inr False) ps \<Longrightarrow> match_any_pattern ps k = Inr False"
  by (induction ps) auto

lemma pattern_tier_first:
  assumes "enabled R" and "match_any_pattern (jira_projects R) k = Inr True"
    and "\<forall>(m', r)\<in>set pre. misses k r"
  shows "pattern_tier (map snd (pre @ (m, R) # post)) k = Inr (Some R)"
  using assms by (induction pre) (auto simp: misses_def match_any_pattern_miss)

lemma pattern_tier_nobody:
  "\<forall>(m', r)\<in>set xs. misses k r \<Longrightarrow> pattern_tier (map snd xs) k = Inr None"
  by (induction xs) (auto simp: misses_def match_any_pattern_miss)

section \<open>Patterns without regular-expression characters\<close>

lemma replace_chain:
  "str_replace_char (CHR ''?'') ''.'' (str_replace_char (CHR ''*'') ''.*'' p) = concat (map glob_regex p)"
  by (induction p) (auto simp: str_replace_char_def glob_regex_def)

lemma glob_regex_head: "concat (map glob_regex p) = d # rest \<Longrightarrow> d \<noteq> CHR ''*''"
  by (cases p) (auto simp: glob_regex_def split: if_splits)

lemma re_parse_once:
  assumes "\<not> re_special c" and "\<And>d r. rest = d # r \<Longrightarrow> d \<noteq> CHR ''*''"
  shows "re_parse (c # rest) = map_option ((#) (Once (re_atom_of c))) (re_parse rest)"
  using assms by (cases rest) auto

lemma re_parse_glob:
  "wildcard_only p \<Longrightarrow> re_parse (concat (map glob_regex p)) = Some (map glob_item p)"
proof (induction p)
  case Nil
  show ?case by simp
next
  case (Cons c p)
  then have IH: "re_parse (concat (map glob_regex p)) = Some (map glob_item p)"
    and c: "c \<notin> set (CHR 0x5C # ''.^$|+()[]{}'')"
    by (simp_all add: wildcard_only_def)
  have dot: "\<not> re_special (CHR ''.'')" by (simp add: re_special_def)
  have once: "re_parse (x # concat (map glob_regex p)) =
      map_option ((#) (Once (re_atom_of x))) (re_parse (concat (map glob_regex p)))"
    if "\<not> re_special x" for x
    using that glob_regex_head by (intro re_parse_once) auto
  consider "c = CHR ''*''" | "c = CHR ''?''" | "c \<noteq> CHR ''*''" "c \<noteq> CHR ''?''" by blast
  then show ?case
  proof cases
    case 1
    then have "glob_regex c = ''.*''" and "glob_item c = Star Dot"
      by (simp_all add: glob_regex_def glob_item_def)
    then show ?thesis using IH dot by (simp add: re_atom_of_def)
  next
    case 2
    then have "glob_regex c = ''.''" and "glob_item c = Once Dot"
      by (simp_all add: glob_regex_def glob_item_def)
    then show ?thesis using IH once[OF dot] by (simp add: re_atom_of_def)
  next
    case 3
    then have "glob_regex c = [c]" and "glob_item c = Once (Lit c)"
      by (simp_all add: glob_regex_def glob_item_def)
    moreover from c have "\<not> re_special c" and "c \<noteq> CHR ''.''"
      using 3 by (auto simp: re_special_def)
    ultimately show ?thesis using IH once[of c] by (simp add: re_atom_of_def)
  qed
qed

lemma re_match_glob:
  "newline \<notin> set k \<Longrightarrow> re_match_items (map glob_item p) k = glob_match p k"
proof (induction p k rule: glob_match.induct)
  case (1 s)
  then show ?case by auto
next
  case (2 p ps)
  then show ?case by (auto simp: glob_item_def)
next
  case (3 p ps c cs)
  then show ?case by (auto simp: glob_item_def)
qed

lemma glob_match_star: "glob_match ''*'' k"
  by (induction k) auto

lemma glob_regex_chars:
  "set (concat (map glob_regex p)) \<subseteq> set p \<union> {CHR ''.'', CHR ''*''}"
  by (induction p) (auto simp: glob_regex_def)

lemma glob_regex_ascii:
  "list_all is_ascii p \<Longrightarrow> list_all is_ascii (concat (map glob_regex p))"
  by (induction p) (auto simp: glob_regex_def is_ascii_def)

lemma glob_regex_compiles:
  assumes "wildcard_only p"
  shows "\<not> unterminated_group (''^'' @ concat (map glob_regex p) @ ''$'')"
proof -
  from assms have "CHR ''('' \<notin> set p"
    by (auto simp: wildcard_only_def list_all_iff)
  then have "CHR ''('' \<notin> set (concat (map glob_regex p))"
    using glob_regex_chars[of p] by auto
  then show ?thesis by (simp add: unterminated_group_def)
qed

lemma match_pattern_plain:
  assumes "wildcard_only pattern" and "newline \<notin> set project_key"
    and "list_all is_ascii pattern" and "list_all is_ascii project_key"
  shows "match_pattern pattern project_key = Inr (glob_match pattern project_key)"
proof (cases "pattern = ''*''")
  case True
  then show ?thesis by (simp add: match_pattern_def glob_match_star)
next
  case False
  have "list_all is_ascii (''^'' @ concat (map glob_regex pattern) @ ''$'')"
    using glob_regex_ascii[OF assms(3)] by (simp add: is_ascii_def)
  with False show ?thesis
    using assms(1,2,4) glob_regex_compiles[OF assms(1)]
    by (simp add: match_pattern_def replace_chain re_match_ignorecase_def re_parse_glob re_match_glob)
qed

section \<open>Facts about loading\<close>

lemma cleared_router: "rt\<lparr>routes := [], catch_all_route := None\<rparr> = empty_router"
  by (simp add: empty_router_def)

lemma reload_never_raises: "fst (reload_config env src rt) = None"
  by (simp add: reload_config_def)

lemma read_broken:
  "read_config broken_document empty_router =
     (Some (KeyError ''namespace''), \<lparr>routes = [(''alpha'', route_alpha)], catch_all_route = None\<rparr>)"
  by (simp add: read_config_def broken_document_def good_entry_def bad_entry_def empty_router_def
      route_of_config_def required_def and_then_def route_alpha_def)

section \<open>Facts about the changelog\<close>



section \<open>Claims about the route lookup\<close>

text \<open>
  C1, as stated: a key that is an exact member of the pattern set of an enabled route A, and
  that matches a wildcard pattern of an enabled route B, is always resolved to A. This fails
  when a second enabled route lists the same key and was inserted before A: the exact tier
  returns the first route in iteration order that lists the key. Here \<open>gamma\<close>, \<open>alpha\<close> and
  \<open>beta\<close> are inserted in this order; \<open>alpha\<close> lists \<open>PROJ\<close>, \<open>beta\<close> matches it by \<open>PR*\<close>,
  and the lookup returns \<open>gamma\<close>.
\<close>

theorem C1_tie_counterexample:
  "(''alpha'', route_alpha) \<in> set (routes (make_router [route_gamma, route_alpha, route_beta] None)) \<and>
   enabled route_alpha \<and> ''PROJ'' \<in> set (jira_projects route_alpha) \<and>
   (''beta'', route_beta) \<in> set (routes (make_router [route_gamma, route_alpha, route_beta] None)) \<and>
   enabled route_beta \<and> ''PR*'' \<in> set (jira_projects route_beta) \<and>
   match_pattern ''PR*'' ''PROJ'' = Inr True \<and>
   find_route_for_project (make_router [route_gamma, route_alpha, route_beta] None) ''PROJ''
     = Inr (Some route_gamma) \<and>
   route_gamma \<noteq> route_alpha"
  by (simp add: example_defs lookup_defs)

text \<open>
  C1, amended: the lookup evaluates the three tiers in the fixed order exact match, then
  wildcard pattern match, then catch-all, and in each tier the first match in the
  iteration order of the table wins. For every route table and every key:
  \<^item> when some enabled route lists the key exactly, the lookup returns the first such route
    in iteration order, whatever patterns match the key and wherever the routes with those
    patterns were inserted;
  \<^item> so a key listed by an enabled route A, and by no other enabled route, is resolved to
    A, regardless of the insertion order of A and of a route B with a matching wildcard;
  \<^item> when no enabled route lists the key, the lookup returns the first enabled route with a
    pattern that matches, the patterns evaluated before it having evaluated to no match,
    whatever the catch-all is;
  \<^item> when no enabled route lists the key and every pattern of every enabled route evaluates
    to no match, the lookup returns the catch-all if there is one and it is enabled, and
    none otherwise.
\<close>

theorem C1_tier_order:
  "(routes rt = pre @ (m, R) # post \<and> lists_key k R \<and> (\<forall>(m', r)\<in>set pre. \<not> lists_key k r)
      \<longrightarrow> find_route_for_project rt k = Inr (Some R)) \<and>
   ((n, A) \<in> set (routes rt) \<and> lists_key k A \<and>
    (\<forall>(m', r)\<in>set (routes rt). lists_key k r \<longrightarrow> r = A)
      \<longrightarrow> find_route_for_project rt k = Inr (Some A)) \<and>
   ((\<forall>(m', r)\<in>set (routes rt). \<not> lists_key k r) \<and>
    routes rt = pre @ (m, R) # post \<and> enabled R \<and> jira_projects R = ps @ p # qs \<and>
    match_pattern p k = Inr True \<and> (\<forall>q\<in>set ps. match_pattern q k = Inr False) \<and>
    (\<forall>(m', r)\<in>set pre. misses k r)
      \<longrightarrow> find_route_for_project rt k = Inr (Some R)) \<and>
   ((\<forall>(m', r)\<in>set (routes rt). \<not> lists_key k r \<and> misses k r)
      \<longrightarrow> find_route_for_project rt k =
            Inr (case catch_all_route rt of None \<Rightarrow> None
                 | Some c \<Rightarrow> if enabled c then Some c else None))"
proof -
  have first: "find_route_for_project rt k = Inr (Some R)"
    if "routes rt = pre @ (m, R) # post" and "lists_key k R"
      and "\<forall>(m', r)\<in>set pre. \<not> lists_key k r"
    using that exact_tier_first[of k R pre m post]
    by (simp add: find_route_for_project_def)
  have only: "find_route_for_project rt k = Inr (Some A)"
    if "(n, A) \<in> set (routes rt)" and "lists_key k A"
      and "\<forall>(m', r)\<in>set (routes rt). lists_key k r \<longrightarrow> r = A"
  proof -
    have "A \<in> set (map snd (routes rt))" using that(1) by force
    moreover have "\<forall>r\<in>set (map snd (routes rt)). enabled r \<and> k \<in> set (jira_projects r) \<longrightarrow> r = A"
      using that(3) by (auto simp: lists_key_def)
    ultimately have "exact_tier (map snd (routes rt)) k = Some A"
      using that(2) by (intro exact_tier_unique) (auto simp: lists_key_def)
    then show ?thesis by (simp add: find_route_for_project_def)
  qed
  have pattern: "find_route_for_project rt k = Inr (Some R)"
    if "\<forall>(m', r)\<in>set (routes rt). \<not> lists_key k r"
      and "routes rt = pre @ (m, R) # post" and "enabled R" and "jira_projects R = ps @ p # qs"
      and "match_pattern p k = Inr True" and "\<forall>q\<in>set ps. match_pattern q k = Inr False"
      and "\<forall>(m', r)\<in>set pre. misses k r"
  proof -
    have e: "exact_tier (map snd (routes rt)) k = None"
      using that(1) by (rule exact_tier_nobody)
    have "match_any_pattern (jira_projects R) k = Inr True"
      using that(4,5,6) by (simp add: match_any_pattern_hit)
    then have "pattern_tier (map snd (routes rt)) k = Inr (Some R)"
      using that(2,3,7) by (simp only: pattern_tier_first)
    with e show ?thesis by (simp add: find_route_for_project_def)
  qed
  have last: "find_route_for_project rt k =
      Inr (case catch_all_route rt of None \<Rightarrow> None | Some c \<Rightarrow> if enabled c then Some c else None)"
    if h: "\<forall>(m', r)\<in>set (routes rt). \<not> lists_key k r \<and> misses k r"
  proof -
    from h have "exact_tier (map snd (routes rt)) k = None"
      by (intro exact_tier_nobody) auto
    moreover from h have "pattern_tier (map snd (routes rt)) k = Inr None"
      by (intro pattern_tier_nobody) auto
    ultimately show ?thesis
      by (simp add: find_route_for_project_def split: option.splits)
  qed
  from first only pattern last show ?thesis by blast
qed

text \<open>
  The theorem at five lookups. \<open>PROJ\<close> is listed by \<open>gamma\<close> and \<open>alpha\<close> and goes to \<open>gamma\<close>,
  the first of the two. Listed by \<open>alpha\<close> alone, it goes to \<open>alpha\<close> whether \<open>beta\<close>, whose
  pattern \<open>PR*\<close> matches it, was inserted before or after. \<open>PRX\<close> is listed by nobody and
  matches \<open>PR*\<close>: it goes to \<open>beta\<close> and not to the catch-all. \<open>OTHER\<close> matches nothing and
  goes to the catch-all.
\<close>

theorem C1_tier_order_witness:
  "find_route_for_project (make_router [route_gamma, route_alpha, route_beta] None) ''PROJ''
     = Inr (Some route_gamma) \<and>
   find_route_for_project (make_router [route_beta, route_alpha] None) ''PROJ'' = Inr (Some route_alpha) \<and>
   find_route_for_project (make_router [route_alpha, route_beta] None) ''PROJ'' = Inr (Some route_alpha) \<and>
   match_pattern ''PR*'' ''PROJ'' = Inr True \<and>
   find_route_for_project (make_router [route_alpha, route_beta] (Some route_fallback)) ''PRX''
     = Inr (Some route_beta) \<and>
   find_route_for_project (make_router [route_alpha, route_beta] (Some route_fallback)) ''OTHER''
     = Inr (Some route_fallback)"
proof -
  have m: "match_pattern ''PR*'' ''PROJ'' = Inr True" by (simp add: match_defs)
  have 1: "find_route_for_project (make_router [route_gamma, route_alpha, route_beta] None) ''PROJ''
      = Inr (Some route_gamma)"
    using C1_tier_order[where rt = "make_router [route_gamma, route_alpha, route_beta] None"
        and k = "''PROJ''" and pre = "[]" and m = "''gamma''" and R = route_gamma
        and post = "[(''alpha'', route_alpha), (''beta'', route_beta)]"]
    by (simp add: example_defs lists_key_def)
  have 2: "find_route_for_project (make_router [route_beta, route_alpha] None) ''PROJ''
      = Inr (Some route_alpha)"
    using C1_tier_order[where rt = "make_router [route_beta, route_alpha] None"
        and k = "''PROJ''" and n = "''alpha''" and A = route_alpha]
    by (simp add: example_defs lists_key_def)
  have 3: "find_route_for_project (make_router [route_alpha, route_beta] None) ''PROJ''
      = Inr (Some route_alpha)"
    using C1_tier_order[where rt = "make_router [route_alpha, route_beta] None"
        and k = "''PROJ''" and n = "''alpha''" and A = route_alpha]
    by (simp add: example_defs lists_key_def)
  have 4: "find_route_for_project (make_router [route_alpha, route_beta] (Some route_fallback)) ''PRX''
      = Inr (Some route_beta)"
    using C1_tier_order[where rt = "make_router [route_alpha, route_beta] (Some route_fallback)"
        and k = "''PRX''" and pre = "[(''alpha'', route_alpha)]" and m = "''beta''" and R = route_beta
        and post = "[]" and ps = "[]" and p = "''PR*''" and qs = "[]"]
    by (simp add: example_defs lists_key_def misses_def match_defs)
  have 5: "find_route_for_project (make_router [route_alpha, route_beta] (Some route_fallback)) ''OTHER''
      = Inr (Some route_fallback)"
    using C1_tier_order[where rt = "make_router [route_alpha, route_beta] (Some route_fallback)"
        and k = "''OTHER''"]
    by (simp add: example_defs lists_key_def misses_def match_defs)
  from m 1 2 3 4 5 show ?thesis by simp
qed

text \<open>
  C2. The claim: a pattern matches a key exactly when, with \<open>*\<close> read as zero or more
  characters, \<open>?\<close> as exactly one and every other character as itself, the whole pattern
  matches the whole key, case-insensitively (\<open>glob_match\<close>). The program does not escape
  the pattern before it compiles it as a regular expression, so a character of the pattern
  with a meaning in \<^verbatim>\<open>re\<close> is not matched literally: the pattern \<open>A.B\<close> matches the key \<open>AXB\<close>.
\<close>

theorem C2_unescaped_dot:
  "match_pattern ''A.B'' ''AXB'' = Inr True \<and> \<not> glob_match ''A.B'' ''AXB''"
  by (simp add: lookup_defs)

text \<open>
  Two more places where the regular expression is not the wildcard matching: a newline that
  ends the key is passed over by \<^verbatim>\<open>$\<close>, and a newline inside the key is not matched by the
  dot that \<open>*\<close> and \<open>?\<close> become. A pattern with an opening parenthesis and nothing to
  close it, such as \<open>(\<close>, is no regular expression at all: matching any key against it
  raises \<^verbatim>\<open>re.error\<close>, also the key \<open>(\<close> itself.
\<close>

lemma match_pattern_newline_examples:
  "match_pattern ''PROJ'' (''PROJ'' @ [newline]) = Inr True \<and>
   \<not> glob_match ''PROJ'' (''PROJ'' @ [newline]) \<and>
   match_pattern ''A*'' [CHR ''A'', newline, CHR ''B''] = Inr False \<and>
   glob_match ''A*'' [CHR ''A'', newline, CHR ''B''] \<and>
   match_pattern ''('' ''('' = Inl ReError"
  by (simp add: match_defs)

text \<open>
  On the patterns that project keys call for, the program does what the claim says
  (\<open>match_pattern_plain\<close> above): when no character of the pattern other than \<open>*\<close> and \<open>?\<close>
  has a meaning in \<^verbatim>\<open>re\<close>, and the key has no newline (both in ASCII), the pattern matches
  the key exactly when \<open>glob_match\<close> holds. For instance \<open>proj-*\<close> matches \<open>PROJ-123\<close>.
\<close>

lemma match_pattern_plain_example:
  "match_pattern ''proj-*'' ''PROJ-123'' = Inr True \<and> glob_match ''proj-*'' ''PROJ-123''"
  using match_pattern_plain[of "''proj-*''" "''PROJ-123''"]
  by (simp add: wildcard_only_def newline_def lower_char_def is_ascii_def)

text \<open>
  C6. A route with \<open>enabled = false\<close> is invisible to the lookup in every tier: the route the
  lookup returns, if any, is enabled; and setting the flag of a route to false changes the
  lookup exactly as deleting the route from the table does, for the routes of the table
  and for the catch-all.
\<close>

theorem C6_disabled_invisible:
  "(find_route_for_project rt k = Inr (Some r) \<longrightarrow> enabled r) \<and>
   find_route_for_project (disable_route n rt) k = find_route_for_project (remove_route n rt) k \<and>
   find_route_for_project (disable_catch_all rt) k = find_route_for_project (remove_catch_all rt) k"
  using find_route_enabled find_route_disable find_route_disable_catch_all by blast

text \<open>
  The theorem at a table where \<open>gamma\<close> and \<open>alpha\<close> both list \<open>PROJ\<close>: the lookup returns
  \<open>gamma\<close>, which is enabled; with \<open>gamma\<close> disabled it returns \<open>alpha\<close>; and a disabled
  catch-all is not returned.
\<close>

theorem C6_disabled_invisible_witness:
  "find_route_for_project (make_router [route_gamma, route_alpha] (Some route_fallback)) ''PROJ''
     = Inr (Some route_gamma) \<and> enabled route_gamma \<and>
   find_route_for_project
     (disable_route ''gamma'' (make_router [route_gamma, route_alpha] (Some route_fallback))) ''PROJ''
     = Inr (Some route_alpha) \<and>
   find_route_for_project (disable_catch_all (make_router [] (Some route_fallback))) ''PROJ'' = Inr None"
proof -
  let ?rt = "make_router [route_gamma, route_alpha] (Some route_fallback)"
  have 1: "find_route_for_project ?rt ''PROJ'' = Inr (Some route_gamma)"
    by (simp add: example_defs lookup_defs)
  have 2: "find_route_for_project (remove_route ''gamma'' ?rt) ''PROJ'' = Inr (Some route_alpha)"
    by (simp add: example_defs lookup_defs remove_route_def)
  have 3: "find_route_for_project (remove_catch_all (make_router [] (Some route_fallback))) ''PROJ'' = Inr None"
    by (simp add: example_defs lookup_defs remove_catch_all_def)
  from 1 2 3 show ?thesis
    using C6_disabled_invisible[of ?rt "''PROJ''" route_gamma "''gamma''"]
      C6_disabled_invisible[of "make_router [] (Some route_fallback)" "''PROJ''" route_gamma "''gamma''"]
    by simp
qed




section \<open>Claims about loading and reloading\<close>

text \<open>
  C3, as stated: when loading fails during a reload, \<^verbatim>\<open>reload_config\<close> raises and the
  routes and the catch-all the lookup sees are the ones from before the reload. Neither
  holds. \<^verbatim>\<open>reload_config\<close> empties the table first, and \<^verbatim>\<open>load_config\<close> handles every
  exception of its body by falling back to the environment. With a file that cannot be
  parsed, a table holding \<open>alpha\<close> and a catch-all is replaced by an empty table with the
  default catch-all, no exception leaves \<^verbatim>\<open>reload_config\<close>, and the endpoint answers 200:
  \<open>PROJ\<close> went to \<open>alpha\<close> before and goes to the default route after.
\<close>

theorem C3_reload_counterexample:
  "fst (read_config (Unreadable YAMLError) empty_router) = Some YAMLError \<and>
   reload_config Map.empty (Some (Unreadable YAMLError)) (make_router [route_alpha] (Some route_fallback))
     = (None, \<lparr>routes = [], catch_all_route = Some (default_route Map.empty)\<rparr>) \<and>
   routes (make_router [route_alpha] (Some route_fallback)) = [(''alpha'', route_alpha)] \<and>
   catch_all_route (make_router [route_alpha] (Some route_fallback)) = Some route_fallback \<and>
   default_route Map.empty \<noteq> route_fallback \<and>
   find_route_for_project (make_router [route_alpha] (Some route_fallback)) ''PROJ'' = Inr (Some route_alpha) \<and>
   find_route_for_project
     (snd (reload_config Map.empty (Some (Unreadable YAMLError)) (make_router [route_alpha] (Some route_fallback))))
     ''PROJ'' = Inr (Some (default_route Map.empty)) \<and>
   fst (reload_endpoint Map.empty (Some (Unreadable YAMLError)) (make_router [route_alpha] (Some route_fallback))) = 200"
  by (simp add: reload_config_def reload_endpoint_def load_config_def read_config_def load_from_env_def
      default_url_def default_namespace_def default_route_def getenv_def empty_router_def
      example_defs lookup_defs)

text \<open>
  C3, amended: a reload never raises and never keeps the previous table. When loading fails,
  the error is handled inside \<^verbatim>\<open>load_config\<close>: the routes and the catch-all from before the
  reload are discarded, and the table afterwards holds the routes stored before the failure
  together with the catch-all of the environment fallback (\<open>load_from_env\<close>); the endpoint
  \<^verbatim>\<open>/config/reload\<close> answers 200.
\<close>

theorem C3_reload_falls_back:
  assumes "read_config f empty_router = (Some e, rt')"
  shows "reload_config env (Some f) rt = (None, load_from_env env rt') \<and>
         fst (reload_endpoint env (Some f) rt) = 200"
  using assms by (simp add: reload_config_def reload_endpoint_def load_config_def cleared_router)

text \<open>
  The theorem at a document whose second route lacks its \<^verbatim>\<open>namespace\<close>: the table that held
  \<open>gamma\<close> and a catch-all holds, after the reload, the first route of the document and the
  default catch-all.
\<close>

theorem C3_reload_falls_back_witness:
  "reload_config Map.empty (Some broken_document) (make_router [route_gamma] (Some route_fallback)) =
     (None, \<lparr>routes = [(''alpha'', route_alpha)], catch_all_route = Some (default_route Map.empty)\<rparr>) \<and>
   fst (reload_endpoint Map.empty (Some broken_document) (make_router [route_gamma] (Some route_fallback))) = 200"
  using C3_reload_falls_back[OF read_broken, of Map.empty "make_router [route_gamma] (Some route_fallback)"]
  by (simp add: load_from_env_def default_url_def getenv_def)

text \<open>
  C5, as stated: if no default endpoint is configured in the environment, the fallback
  leaves the catch-all unset. With \<^verbatim>\<open>DEFAULT_AGENTAPI_URL\<close> not set, \<^verbatim>\<open>os.getenv\<close> returns the
  URL written in the program, and the fallback builds the catch-all from it.
\<close>

theorem C5_unset_variable_counterexample:
  "(Map.empty :: environ) ''DEFAULT_AGENTAPI_URL'' = None \<and>
   catch_all_route (new_router Map.empty None) =
     Some \<lparr>name = ''default'', namespace = ''claude-dev'',
           agentapi_url = ''http://claude-dev-env-service.claude-dev.svc.cluster.local:3284'',
           jira_projects = [''*''], enabled = True\<rparr>"
  by (simp add: new_router_def load_config_def load_from_env_def default_url_def default_namespace_def
      default_route_def getenv_def empty_router_def)

text \<open>
  C5, amended: when the configuration file is absent or unreadable, \<^verbatim>\<open>load_config\<close> does not
  raise and falls back to a single catch-all route named \<open>default\<close>, enabled, with the URL
  and namespace of \<^verbatim>\<open>DEFAULT_AGENTAPI_URL\<close> and \<^verbatim>\<open>DEFAULT_NAMESPACE\<close>, each replaced by the value
  written in the program when the variable is not set; the routes stay as they were, empty
  in a new router. The catch-all is left unset only when \<^verbatim>\<open>DEFAULT_AGENTAPI_URL\<close> is set to
  the empty string.
\<close>

theorem C5_env_fallback:
  assumes "src = None \<or> (\<exists>e. src = Some (Unreadable e))"
  shows "load_config env src rt =
           (if env ''DEFAULT_AGENTAPI_URL'' = Some [] then rt
            else rt\<lparr>catch_all_route := Some (default_route env)\<rparr>) \<and>
         routes (new_router env src) = [] \<and>
         catch_all_route (new_router env src) =
           (if env ''DEFAULT_AGENTAPI_URL'' = Some [] then None else Some (default_route env)) \<and>
         default_route env =
           \<lparr>name = ''default'',
            namespace = (case env ''DEFAULT_NAMESPACE'' of None \<Rightarrow> ''claude-dev'' | Some ns \<Rightarrow> ns),
            agentapi_url =
              (case env ''DEFAULT_AGENTAPI_URL'' of
                 None \<Rightarrow> ''http://claude-dev-env-service.claude-dev.svc.cluster.local:3284''
               | Some url \<Rightarrow> url),
            jira_projects = [''*''], enabled = True\<rparr>"
proof -
  have u: "default_url env = [] \<longleftrightarrow> env ''DEFAULT_AGENTAPI_URL'' = Some []"
    by (auto simp: default_url_def getenv_def split: option.splits)
  have l: "load_config env src rt = load_from_env env rt" for rt
    using assms by (auto simp: load_config_def read_config_def)
  have 1: "load_config env src rt =
           (if env ''DEFAULT_AGENTAPI_URL'' = Some [] then rt
            else rt\<lparr>catch_all_route := Some (default_route env)\<rparr>)"
    by (simp add: l load_from_env_def u)
  have 2: "routes (new_router env src) = []"
    by (simp add: l new_router_def load_from_env_def empty_router_def)
  have 3: "catch_all_route (new_router env src) =
           (if env ''DEFAULT_AGENTAPI_URL'' = Some [] then None else Some (default_route env))"
    by (simp add: l new_router_def load_from_env_def u empty_router_def)
  have 4: "default_route env =
           \<lparr>name = ''default'',
            namespace = (case env ''DEFAULT_NAMESPACE'' of None \<Rightarrow> ''claude-dev'' | Some ns \<Rightarrow> ns),
            agentapi_url =
              (case env ''DEFAULT_AGENTAPI_URL'' of
                 None \<Rightarrow> ''http://claude-dev-env-service.claude-dev.svc.cluster.local:3284''
               | Some url \<Rightarrow> url),
            jira_projects = [''*''], enabled = True\<rparr>"
    by (simp add: default_route_def default_namespace_def default_url_def getenv_def)
  from 1 2 3 4 show ?thesis by (simp only: simp_thms)
qed

text \<open>
  The theorem at an unreadable file with both variables set, and at an absent file with
  \<^verbatim>\<open>DEFAULT_AGENTAPI_URL\<close> set to the empty string.
\<close>

theorem C5_env_fallback_witness:
  "new_router (Map.empty(''DEFAULT_AGENTAPI_URL'' \<mapsto> ''http://agent:3284'', ''DEFAULT_NAMESPACE'' \<mapsto> ''dev''))
      (Some (Unreadable OSError)) =
     \<lparr>routes = [],
      catch_all_route = Some \<lparr>name = ''default'', namespace = ''dev'', agentapi_url = ''http://agent:3284'',
                              jira_projects = [''*''], enabled = True\<rparr>\<rparr> \<and>
   new_router (Map.empty(''DEFAULT_AGENTAPI_URL'' \<mapsto> [])) None = \<lparr>routes = [], catch_all_route = None\<rparr>"
  using C5_env_fallback[of "Some (Unreadable OSError)"
      "Map.empty(''DEFAULT_AGENTAPI_URL'' \<mapsto> ''http://agent:3284'', ''DEFAULT_NAMESPACE'' \<mapsto> ''dev'')" empty_router]
    C5_env_fallback[of None "Map.empty(''DEFAULT_AGENTAPI_URL'' \<mapsto> [])" empty_router]
  by (simp add: new_router_def empty_router_def)

section \<open>Claims about the prompts\<close>

text \<open>
  C8. The classification of an event name is a case-insensitive substring match with exactly
  one answer: Updated when the name contains "updated" in any capitalisation; otherwise
  Assigned when it contains "assigned"; otherwise Created. "updated" is looked for first, so
  a name containing both words is Updated.
\<close>

theorem C8_classify:
  "select_template_key e =
     (if occurs_ignoring_case ''updated'' e then Issue_updated
      else if occurs_ignoring_case ''assigned'' e then Issue_assigned
      else Issue_created)"
  by (simp add: select_template_key_def lower_contains_iff)

lemma C8_classify_examples:
  "select_template_key ''jira:issue_updated'' = Issue_updated \<and>
   select_template_key ''jira:issue_assigned'' = Issue_assigned \<and>
   select_template_key ''jira:issue_created'' = Issue_created \<and>
   select_template_key ''JIRA:Issue_Assigned_and_UPDATED'' = Issue_updated \<and>
   select_template_key ''comment_deleted'' = Issue_created"
  by (simp add: select_template_key_def lower_def lower_char_def)



text \<open>
  C4. The claim: a ticket field that is missing, or present but null, is rendered as its
  default, so that with \<^verbatim>\<open>priority: null\<close> and \<^verbatim>\<open>assignee: null\<close> the Created prompt contains
  \<open>Priority: None\<close> and \<open>Assignee: Unassigned\<close>. The program guards the assignee against
  null and not the priority (nor the status): \<^verbatim>\<open>fields.get('priority', {})\<close> is \<^verbatim>\<open>None\<close> when
  the member is null, \<^verbatim>\<open>.get('name', 'None')\<close> on it raises \<^verbatim>\<open>AttributeError\<close>, no prompt
  is built, and the handler answers 500.
\<close>

theorem C4_null_priority_fails:
  "handle_jira_webhook Map.empty (make_router [] (Some route_fallback)) agent_ok null_priority_payload
     = Internal_error AttributeError \<and>
   build_prompt Map.empty null_priority_payload null_priority_fields (JStr ''PROJ-1'') (JStr ''PROJ'')
     ''jira:issue_created'' = Inl AttributeError"
  by (simp add: handle_jira_webhook_def handle_body_def null_priority_payload_def null_priority_fields_def
      and_then_def obj_get_def lookup_key_def event_name_def build_prompt_def ticket_info_of_def
      example_defs lookup_defs)

text \<open>
  The same happens on every payload: whenever the member \<^verbatim>\<open>priority\<close> or the member
  \<^verbatim>\<open>status\<close> of the ticket's fields is null, building \<^verbatim>\<open>ticket_info\<close> raises
  \<^verbatim>\<open>AttributeError\<close>.
\<close>

lemma null_priority_raises:
  assumes "obj_get members ''priority'' = Some JNull \<or> obj_get members ''status'' = Some JNull"
  shows "ticket_info_of env data (JObj members) ticket_key project_key webhook_event = Inl AttributeError"
proof -
  show ?thesis
  proof (cases "obj_get members ''priority'' = Some JNull")
    case True
    then show ?thesis by (simp add: ticket_info_of_def and_then_def)
  next
    case False
    with assms have s: "obj_get members ''status'' = Some JNull" by simp
    show ?thesis
    proof (cases "py_get (case obj_get members ''priority'' of None \<Rightarrow> JObj [] | Some v \<Rightarrow> v) ''name'' (JStr ''None'')")
      case (Inl e)
      then have "e = AttributeError"
        by (cases "case obj_get members ''priority'' of None \<Rightarrow> JObj [] | Some v \<Rightarrow> v") auto
      with Inl show ?thesis by (simp add: ticket_info_of_def and_then_def)
    next
      case (Inr v)
      with s show ?thesis by (simp add: ticket_info_of_def and_then_def)
    qed
  qed
qed

text \<open>
  With the member \<^verbatim>\<open>priority\<close> absent instead of null (and the assignee still null), the
  prompt is built and holds both defaults.
\<close>

lemma absent_priority_prompt:
  "\<exists>prompt. build_prompt Map.empty null_priority_payload no_priority_fields (JStr ''PROJ-1'') (JStr ''PROJ'')
      ''jira:issue_created'' = Inr prompt \<and>
     py_in ''Priority: None'' prompt \<and> py_in ''Assignee: Unassigned'' prompt"
  by (simp add: build_prompt_def ticket_info_of_def no_priority_fields_def and_then_def obj_get_def
      select_template_key_def lower_def lower_char_def issue_created_template_def apostrophe_def
      getenv_def)

section \<open>Claims about the manual trigger\<close>

text \<open>
  C10. \<^verbatim>\<open>/trigger-claude\<close> never consults the \<open>enabled\<close> flag. For every request with a
  prompt that names a project: when a route of that name is in the table, the prompt is
  posted to that route's endpoint, whatever its flag; when no route has that name (or the
  name is empty) and there is a catch-all, the prompt is posted to the catch-all's
  endpoint, whatever its flag.
\<close>

theorem C10_trigger_ignores_enabled:
  assumes "py_get data ''prompt'' (JStr []) = Inr prompt" and "truthy prompt"
    and "py_get data ''project'' (JStr []) = Inr (JStr p)"
  shows "(p \<noteq> [] \<and> map_of (routes rt) p = Some r \<longrightarrow>
            trigger_claude_manual rt post data =
              (case post (agentapi_url r @ ''/message'') prompt of
                 Post_status code text \<Rightarrow> Triggered (code = 200) (name r) text
               | Post_failed \<Rightarrow> Trigger_error RequestException)) \<and>
         ((p = [] \<or> map_of (routes rt) p = None) \<and> catch_all_route rt = Some c \<longrightarrow>
            trigger_claude_manual rt post data =
              (case post (agentapi_url c @ ''/message'') prompt of
                 Post_status code text \<Rightarrow> Triggered (code = 200) (name c) text
               | Post_failed \<Rightarrow> Trigger_error RequestException))"
  using assms
  by (auto simp: trigger_claude_manual_def trigger_body_def and_then_def routes_get_def
      split: post_outcome.splits)

text \<open>
  The theorem at a table whose only route and whose catch-all are both disabled: a request
  for \<open>alpha\<close> is posted to \<open>alpha\<close>, a request for an unknown name to the catch-all.
\<close>

theorem C10_trigger_ignores_enabled_witness:
  "\<not> enabled (route_alpha\<lparr>enabled := False\<rparr>) \<and>
   trigger_claude_manual
     (make_router [route_alpha\<lparr>enabled := False\<rparr>] (Some (route_fallback\<lparr>enabled := False\<rparr>)))
     agent_ok (JObj [(''prompt'', JStr ''run the tests''), (''project'', JStr ''alpha'')])
     = Triggered True ''alpha'' ''http://alpha:3284/message'' \<and>
   trigger_claude_manual
     (make_router [route_alpha\<lparr>enabled := False\<rparr>] (Some (route_fallback\<lparr>enabled := False\<rparr>)))
     agent_ok (JObj [(''prompt'', JStr ''run the tests''), (''project'', JStr ''nowhere'')])
     = Triggered True ''fallback'' ''http://shared:3284/message''"
  using
    C10_trigger_ignores_enabled[of
      "JObj [(''prompt'', JStr ''run the tests''), (''project'', JStr ''alpha'')]" "JStr ''run the tests''"
      "''alpha''"
      "make_router [route_alpha\<lparr>enabled := False\<rparr>] (Some (route_fallback\<lparr>enabled := False\<rparr>))"
      "route_alpha\<lparr>enabled := False\<rparr>" agent_ok "route_fallback\<lparr>enabled := False\<rparr>"]
    C10_trigger_ignores_enabled[of
      "JObj [(''prompt'', JStr ''run the tests''), (''project'', JStr ''nowhere'')]" "JStr ''run the tests''"
      "''nowhere''"
      "make_router [route_alpha\<lparr>enabled := False\<rparr>] (Some (route_fallback\<lparr>enabled := False\<rparr>))"
      "route_alpha\<lparr>enabled := False\<rparr>" agent_ok "route_fallback\<lparr>enabled := False\<rparr>"]
  by (simp add: obj_get_def example_defs agent_ok_def)

end
